theory Spec2Isabelle
  imports Main "HOL-Library.Sublist"
begin

section \<open>Account service: data model\<close>

text \<open>
  The request router of the Account service (\<^verbatim>\<open>service/routes.py\<close>) is embedded
  function by function. The entity model (\<^verbatim>\<open>service/models.py\<close>) and the error
  handlers (\<^verbatim>\<open>service/common/error_handlers.py\<close>) are used by the router but are
  not part of the sources at hand; they are modelled from the specification and marked so.
\<close>

subsection \<open>JSON values\<close>

text \<open>
  A parsed JSON value. An object is the Python dict that \<^verbatim>\<open>request.get_json()\<close>
  returns; it is read with \<open>map_of\<close>, one value per key.
\<close>

datatype json =
    JNull
  | JBool bool
  | JInt int
  | JStr string
  | JList "json list"
  | JObj "(string \<times> json) list"

subsection \<open>Accounts and the durable store\<close>

text \<open>
  Modelled from the spec: the class \<^verbatim>\<open>Account\<close> of \<^verbatim>\<open>service/models.py\<close>
  (section 3, Data Model). The attribute \<^verbatim>\<open>id\<close> is \<open>None\<close> until the store
  assigns it. A date is kept as its ISO-8601 text. An attribute that is not yet set on a
  fresh instance is the empty text; the router serializes an instance only after
  deserialization has filled every attribute.
\<close>

record account =
  acc_id :: "int option"
  name :: string
  email :: string
  address :: string
  phone_number :: string
  date_joined :: string

text \<open>
  Modelled from the spec: the persistence collaborator (section 6), a durable store
  queryable by identifier. Records are kept in insertion order; \<open>next_id\<close> is the
  identifier the store hands out at the next insert. Store-level failures (connectivity
  loss) are outside this model: every store operation succeeds.
\<close>

record store =
  accounts :: "account list"
  next_id :: int

subsection \<open>Exceptions\<close>

text \<open>
  A text of Unicode characters, each given by its code point. The URL path of a request
  is such a text; \<open>ascii\<close> reads an ASCII literal as one.
\<close>

type_synonym codepoint = nat

definition ascii :: "string \<Rightarrow> codepoint list" where
  "ascii s = map of_char s"

text \<open>
  What a view function or the routing layer can raise:
  \<^verbatim>\<open>abort(code, description)\<close> raises an \<open>HTTPException\<close>; the model raises
  \<open>DataValidationError\<close>; Python raises \<open>TypeError\<close> when a function is called
  without one of its required arguments; \<open>FatalError\<close> stands for a programming error
  inside the model; the routing layer raises \<open>RequestRedirect\<close> with the path to ask
  for instead.
\<close>

datatype exn =
    HTTPException nat string
  | DataValidationError string
  | TypeError string
  | FatalError string
  | RequestRedirect "codepoint list"

subsection \<open>Requests and responses\<close>

text \<open>
  The verbs of a request. \<open>PATCH\<close> stands for any verb that no rule names. HEAD and
  OPTIONS, which the framework answers by itself, are not modelled.
\<close>

datatype http_method = GET | POST | PUT | DELETE | PATCH

text \<open>
  A request as the view functions read it: the verb and the decoded URL path (used by
  the routing layer), \<open>content_type\<close> is the value of
  \<^verbatim>\<open>request.headers.get("Content-Type")\<close>, and \<open>json_body\<close> is the JSON
  document that the body carries, \<open>None\<close> when the body is absent or cannot be parsed.
\<close>

record request =
  req_method :: http_method
  req_path :: "codepoint list"
  content_type :: "string option"
  json_body :: "json option"

datatype body = Text string | Json json

record response =
  status :: nat
  headers :: "(string \<times> string) list"
  resp_body :: body

definition make_response :: "body \<Rightarrow> nat \<Rightarrow> (string \<times> string) list \<Rightarrow> response" where
  "make_response b code hs = \<lparr>status = code, headers = hs, resp_body = b\<rparr>"

section \<open>Entity model\<close>

text \<open>Modelled from the spec: \<^verbatim>\<open>Account()\<close>, a transient instance without identifier.\<close>

definition Account :: account where
  "Account = \<lparr>acc_id = None, name = [], email = [], address = [],
              phone_number = [], date_joined = []\<rparr>"

text \<open>
  Modelled from the spec: reading one required text attribute of a payload (section 4.1,
  deserialize): a \<open>ValidationError\<close> when the field is absent or is not text.
\<close>

definition text_field :: "(string \<times> json) list \<Rightarrow> string \<Rightarrow> exn + string" where
  "text_field kvs k =
     (case map_of kvs k of
        None \<Rightarrow> Inl (DataValidationError (''Invalid Account: missing '' @ k))
      | Some (JStr s) \<Rightarrow> Inr s
      | Some _ \<Rightarrow> Inl (DataValidationError (''Invalid Account: bad type for '' @ k)))"

text \<open>
  Modelled from the spec: \<^verbatim>\<open>date_joined\<close> is parsed if present, else defaults to
  today (section 4.1, deserialize).
\<close>

definition date_field :: "string \<Rightarrow> (string \<times> json) list \<Rightarrow> exn + string" where
  "date_field today kvs =
     (case map_of kvs ''date_joined'' of
        None \<Rightarrow> Inr today
      | Some (JStr s) \<Rightarrow> Inr s
      | Some _ \<Rightarrow> Inl (DataValidationError ''Invalid Account: bad type for date_joined''))"

text \<open>
  Modelled from the spec: \<^verbatim>\<open>Account.deserialize(payload)\<close> (section 4.1). It
  populates \<open>name\<close>, \<open>email\<close>, \<open>address\<close>, \<open>phone_number\<close> and \<open>date_joined\<close>; it
  fails with a \<open>ValidationError\<close> when the payload is not a mapping, when a required
  field is absent, or when a field has the wrong value kind.
\<close>

definition Account_deserialize :: "string \<Rightarrow> account \<Rightarrow> json \<Rightarrow> exn + account" where
  "Account_deserialize today a payload =
     (case payload of
        JObj kvs \<Rightarrow>
          (case text_field kvs ''name'' of Inl e \<Rightarrow> Inl e | Inr n \<Rightarrow>
          (case text_field kvs ''email'' of Inl e \<Rightarrow> Inl e | Inr m \<Rightarrow>
          (case text_field kvs ''address'' of Inl e \<Rightarrow> Inl e | Inr ad \<Rightarrow>
          (case text_field kvs ''phone_number'' of Inl e \<Rightarrow> Inl e | Inr ph \<Rightarrow>
          (case date_field today kvs of Inl e \<Rightarrow> Inl e | Inr d \<Rightarrow>
             Inr (a\<lparr>name := n, email := m, address := ad,
                    phone_number := ph, date_joined := d\<rparr>))))))
      | _ \<Rightarrow> Inl (DataValidationError ''Invalid Account: body of request contained bad or no data''))"

text \<open>
  Modelled from the spec: \<^verbatim>\<open>Account.serialize()\<close> (sections 4.1 and 6): a mapping of
  all attributes including \<open>id\<close>.
\<close>

definition Account_serialize :: "account \<Rightarrow> json" where
  "Account_serialize a =
     JObj [(''id'', (case acc_id a of None \<Rightarrow> JNull | Some i \<Rightarrow> JInt i)),
           (''name'', JStr (name a)),
           (''email'', JStr (email a)),
           (''address'', JStr (address a)),
           (''phone_number'', JStr (phone_number a)),
           (''date_joined'', JStr (date_joined a))]"

text \<open>
  Modelled from the spec: \<^verbatim>\<open>Account.create()\<close> (section 4.1): the store generates a
  new unique \<open>id\<close> and persists the record.
\<close>

definition Account_create :: "account \<Rightarrow> store \<Rightarrow> account \<times> store" where
  "Account_create a st =
     (let a' = a\<lparr>acc_id := Some (next_id st)\<rparr>
      in (a', st\<lparr>accounts := accounts st @ [a'], next_id := next_id st + 1\<rparr>))"

text \<open>
  Modelled from the spec: \<^verbatim>\<open>Account.find(id)\<close> (section 4.1): the Account matching
  \<open>id\<close>, or the absence value \<open>None\<close>; it never raises.
\<close>

definition Account_find :: "store \<Rightarrow> int \<Rightarrow> account option" where
  "Account_find st i = List.find (\<lambda>a. acc_id a = Some i) (accounts st)"

text \<open>
  Modelled from the spec: \<^verbatim>\<open>Account.all()\<close> (section 4.1): the complete sequence of
  persisted Accounts in insertion order.
\<close>

definition Account_all :: "store \<Rightarrow> account list" where
  "Account_all st = accounts st"

text \<open>
  Modelled from the spec: \<^verbatim>\<open>Account.update(payload)\<close> (section 4.1): overwrites the
  mutable fields from the payload, then persists the change; \<open>id\<close> and \<open>date_joined\<close>
  are not altered. Calling it on an instance without \<open>id\<close> is a programming error. A
  payload that fails validation is a \<open>ValidationError\<close> (section 4.2, PUT row).
\<close>

definition Account_update :: "account \<Rightarrow> json \<Rightarrow> store \<Rightarrow> exn + (account \<times> store)" where
  "Account_update a payload st =
     (case acc_id a of
        None \<Rightarrow> Inl (FatalError ''Update called with empty ID field'')
      | Some i \<Rightarrow>
         (case payload of
            JObj kvs \<Rightarrow>
              (case text_field kvs ''name'' of Inl e \<Rightarrow> Inl e | Inr n \<Rightarrow>
              (case text_field kvs ''email'' of Inl e \<Rightarrow> Inl e | Inr m \<Rightarrow>
              (case text_field kvs ''address'' of Inl e \<Rightarrow> Inl e | Inr ad \<Rightarrow>
              (case text_field kvs ''phone_number'' of Inl e \<Rightarrow> Inl e | Inr ph \<Rightarrow>
                 (let a' = a\<lparr>name := n, email := m, address := ad, phone_number := ph\<rparr>
                  in Inr (a', st\<lparr>accounts :=
                        map (\<lambda>b. if acc_id b = Some i then a' else b) (accounts st)\<rparr>))))))
          | _ \<Rightarrow> Inl (DataValidationError ''Invalid Account: body of request contained bad or no data'')))"

text \<open>
  Modelled from the spec: \<^verbatim>\<open>Account.delete()\<close> (section 4.1): removes the record
  matching this instance's \<open>id\<close> if present; removing an absent record is a silent
  success.
\<close>

definition Account_delete :: "account \<Rightarrow> store \<Rightarrow> store" where
  "Account_delete a st = st\<lparr>accounts := filter (\<lambda>b. acc_id b \<noteq> acc_id a) (accounts st)\<rparr>"

section \<open>Error handlers\<close>

text \<open>
  Modelled from the spec: the error handlers of
  \<^verbatim>\<open>service/common/error_handlers.py\<close> (sections 6 and 7). Every error response
  carries the HTTP status and a human-readable message. An aborted request keeps its status
  code, a \<open>ValidationError\<close> is surfaced as 400, and any other exception that leaves a
  view function is an internal server error, 500.
\<close>

definition error_response :: "nat \<Rightarrow> string \<Rightarrow> response" where
  "error_response code msg =
     make_response (Json (JObj [(''status'', JInt (int code)), (''message'', JStr msg)])) code []"

text \<open>
  Modelled from the spec: the conversion of what a view function raises into a response
  (section 7, propagation policy). Of the framework's answer to a redirect only the status,
  308, is modelled.
\<close>

fun handle_exception :: "exn \<Rightarrow> response" where
  "handle_exception (HTTPException code msg) = error_response code msg"
| "handle_exception (DataValidationError msg) = error_response 400 msg"
| "handle_exception (TypeError msg) = error_response 500 msg"
| "handle_exception (FatalError msg) = error_response 500 msg"
| "handle_exception (RequestRedirect p) = make_response (Text []) 308 []"

section \<open>Request router\<close>

subsection \<open>Utility functions\<close>

text \<open>
  \<^verbatim>\<open>check_content_type(media_type)\<close>: returns when the header is present, non-empty
  and equal to the media type, and aborts with 415 otherwise.
\<close>

definition check_content_type :: "string \<Rightarrow> request \<Rightarrow> exn + unit" where
  "check_content_type media_type req =
     (case content_type req of
        Some ct \<Rightarrow>
          if ct \<noteq> [] \<and> ct = media_type then Inr ()
          else Inl (HTTPException 415 (''Content-Type must be '' @ media_type))
      | None \<Rightarrow> Inl (HTTPException 415 (''Content-Type must be '' @ media_type)))"

text \<open>
  Python's \<^verbatim>\<open>str\<close> on an integer, as the f-strings of the view functions
  use it: the decimal digits, with a minus sign for a negative number.
\<close>

fun digits_of :: "nat \<Rightarrow> string" where
  "digits_of n =
     (if n < 10 then [char_of (48 + n)]
      else digits_of (n div 10) @ [char_of (48 + n mod 10)])"

declare digits_of.simps [simp del]

definition str_int :: "int \<Rightarrow> string" where
  "str_int i = (if i < 0 then CHR ''-'' # digits_of (nat (- i)) else digits_of (nat i))"

definition not_found_message :: "int \<Rightarrow> string" where
  "not_found_message account_id =
     ''Account with id ['' @ str_int account_id @ ''] could not be found.''"

text \<open>
  \<^verbatim>\<open>request.mimetype\<close>: the declared Content-Type up to its first semicolon,
  without surrounding whitespace (the characters that Python's \<^verbatim>\<open>str.strip\<close>
  removes from a header value) and in lower case; empty when no type is declared. A
  header value is a text of Latin-1 characters: its capital letters are A to Z and the
  codes 192 to 222 without 215, each 32 below its small letter.
\<close>

definition is_space :: "char \<Rightarrow> bool" where
  "is_space c =
     (let n = (of_char c :: nat)
      in (9 \<le> n \<and> n \<le> 13) \<or> (28 \<le> n \<and> n \<le> 32) \<or> n = 133 \<or> n = 160)"

definition strip :: "string \<Rightarrow> string" where
  "strip s = rev (dropWhile is_space (rev (dropWhile is_space s)))"

definition lower :: "char \<Rightarrow> char" where
  "lower c =
     (let n = (of_char c :: nat)
      in if (65 \<le> n \<and> n \<le> 90) \<or> (192 \<le> n \<and> n \<le> 222 \<and> n \<noteq> 215)
         then char_of (n + 32) else c)"

definition mimetype_of :: "string option \<Rightarrow> string" where
  "mimetype_of h =
     (case h of
        None \<Rightarrow> []
      | Some ct \<Rightarrow> map lower (strip (takeWhile (\<lambda>c. c \<noteq> CHR '';'') ct)))"

definition mimetype :: "request \<Rightarrow> string" where
  "mimetype req = mimetype_of (content_type req)"

text \<open>
  \<^verbatim>\<open>request.is_json\<close>: the mimetype is \<^verbatim>\<open>application/json\<close> or
  \<^verbatim>\<open>application/*+json\<close>.
\<close>

definition is_json :: "request \<Rightarrow> bool" where
  "is_json req =
     (let mt = mimetype req
      in mt = ''application/json'' \<or> (prefix ''application/'' mt \<and> suffix ''+json'' mt))"

text \<open>
  \<^verbatim>\<open>request.get_json()\<close>: the parsed body. A request that does not declare a
  JSON type is refused with 415 before its body is read; a body that is absent or cannot
  be parsed is refused with 400.
\<close>

definition not_json_message :: string where
  "not_json_message =
     ''Did not attempt to load JSON data because the request Content-Type was not 'application/json'.''"

definition get_json :: "request \<Rightarrow> exn + json" where
  "get_json req =
     (if \<not> is_json req then Inl (HTTPException 415 not_json_message)
      else
        (case json_body req of
           None \<Rightarrow> Inl (HTTPException 400 ''Failed to decode JSON object'')
         | Some j \<Rightarrow> Inr j))"

subsection \<open>View functions\<close>

text \<open>
  A view function takes the request and the store and returns what it raises or returns,
  with the store as it leaves it. \<open>today\<close> is the current date.
\<close>

type_synonym outcome = "(exn + response) \<times> store"

definition health :: "request \<Rightarrow> store \<Rightarrow> outcome" where
  "health req st = (Inr (make_response (Json (JObj [(''status'', JStr ''OK'')])) 200 []), st)"

definition index :: "request \<Rightarrow> store \<Rightarrow> outcome" where
  "index req st =
     (Inr (make_response
             (Json (JObj [(''name'', JStr ''Account REST API Service''),
                          (''version'', JStr ''1.0'')])) 200 []), st)"

definition create_accounts :: "string \<Rightarrow> request \<Rightarrow> store \<Rightarrow> outcome" where
  "create_accounts today req st =
     (case check_content_type ''application/json'' req of
        Inl e \<Rightarrow> (Inl e, st)
      | Inr _ \<Rightarrow>
         (case get_json req of
            Inl e \<Rightarrow> (Inl e, st)
          | Inr data \<Rightarrow>
             (case Account_deserialize today Account data of
                Inl e \<Rightarrow> (Inl e, st)
              | Inr account \<Rightarrow>
                 (case Account_create account st of
                    (account', st') \<Rightarrow>
                      (let message = Account_serialize account';
                           location_url = ''/''
                       in (Inr (make_response (Json message) 201
                                  [(''Location'', location_url)]), st'))))))"

definition list_accounts :: "request \<Rightarrow> store \<Rightarrow> outcome" where
  "list_accounts req st =
     (let accounts = Account_all st;
          serialized_accounts = map Account_serialize accounts
      in (Inr (make_response (Json (JList serialized_accounts)) 200 []), st))"

definition read_account :: "int \<Rightarrow> request \<Rightarrow> store \<Rightarrow> outcome" where
  "read_account account_id req st =
     (case Account_find st account_id of
        None \<Rightarrow> (Inl (HTTPException 404 (not_found_message account_id)), st)
      | Some account \<Rightarrow> (Inr (make_response (Json (Account_serialize account)) 200 []), st))"

text \<open>
  \<^verbatim>\<open>def update_account(self, account_id)\<close>: the function is declared with two
  required parameters, \<open>self\<close> and \<open>account_id\<close>; its body does not read \<open>self\<close>.
\<close>

definition update_account :: "int \<Rightarrow> int \<Rightarrow> request \<Rightarrow> store \<Rightarrow> outcome" where
  "update_account self account_id req st =
     (case Account_find st account_id of
        None \<Rightarrow> (Inl (HTTPException 404 (not_found_message account_id)), st)
      | Some account \<Rightarrow>
         (case get_json req of
            Inl e \<Rightarrow> (Inl e, st)
          | Inr data \<Rightarrow>
             (case Account_update account data st of
                Inl e \<Rightarrow> (Inl e, st)
              | Inr (account', st') \<Rightarrow>
                 (Inr (make_response (Json (Account_serialize account')) 200 []), st'))))"

definition delete_account :: "int \<Rightarrow> request \<Rightarrow> store \<Rightarrow> outcome" where
  "delete_account account_id req st =
     (case Account_find st account_id of
        Some account \<Rightarrow> (Inr (make_response (Text []) 204 []), Account_delete account st)
      | None \<Rightarrow> (Inr (make_response (Text []) 204 []), st))"

subsection \<open>Routing\<close>

text \<open>
  The URL rules that the \<^verbatim>\<open>@app.route\<close> decorators register, in source order. A
  rule is the list of its path segments, the verbs it accepts and its endpoint. The
  converter \<^verbatim>\<open><int:account_id>\<close> accepts a non-empty run of decimal digits and
  passes its value under the name \<open>account_id\<close>.
\<close>

datatype endpoint =
    Health | Index | Create_accounts | List_accounts
  | Read_account | Update_account | Delete_account

datatype part = Static string | IntConverter string

type_synonym view_args = "(string \<times> int) list"

type_synonym rule = "part list \<times> http_method list \<times> endpoint"

definition url_map :: "rule list" where
  "url_map =
     [([Static ''health''], [GET], Health),
      ([Static []], [GET], Index),
      ([Static ''accounts''], [POST], Create_accounts),
      ([Static ''accounts''], [GET], List_accounts),
      ([Static ''accounts'', IntConverter ''account_id''], [GET], Read_account),
      ([Static ''accounts'', IntConverter ''account_id''], [PUT], Update_account),
      ([Static ''accounts'', IntConverter ''account_id''], [DELETE], Delete_account)]"

text \<open>
  The integer converter matches its segment against \<^verbatim>\<open>\d+\<close> and reads it with
  \<^verbatim>\<open>int\<close>. On a text, both take every Unicode decimal digit (category Nd), with
  its decimal value. The digits \<^verbatim>\<open>0\<close> to \<^verbatim>\<open>9\<close>, codes 48 to 57, are
  the only ones among the ASCII characters. Which other characters are decimal digits is
  a table of the Unicode database of the interpreter, which is not part of the sources: it
  is the parameter \<open>ucd\<close>, which gives a character beyond ASCII its decimal value.
  Bounds that the interpreter or the database put on the size of a number are not
  modelled.
\<close>

type_synonym unicode_decimal = "codepoint \<Rightarrow> nat option"

definition decimal :: "unicode_decimal \<Rightarrow> codepoint \<Rightarrow> nat option" where
  "decimal ucd c =
     (if c < 128 then (if 48 \<le> c \<and> c \<le> 57 then Some (c - 48) else None)
      else ucd c)"

definition is_digit :: "unicode_decimal \<Rightarrow> codepoint \<Rightarrow> bool" where
  "is_digit ucd c = (decimal ucd c \<noteq> None)"

definition digits_to_nat :: "unicode_decimal \<Rightarrow> codepoint list \<Rightarrow> nat" where
  "digits_to_nat ucd ds =
     foldl (\<lambda>n c. 10 * n + (case decimal ucd c of Some d \<Rightarrow> d | None \<Rightarrow> 0)) 0 ds"

fun match_part :: "unicode_decimal \<Rightarrow> part \<Rightarrow> codepoint list \<Rightarrow> view_args option" where
  "match_part ucd (Static s) seg = (if seg = ascii s then Some [] else None)"
| "match_part ucd (IntConverter n) seg =
     (if seg \<noteq> [] \<and> list_all (is_digit ucd) seg
      then Some [(n, int (digits_to_nat ucd seg))]
      else None)"

fun match_parts :: "unicode_decimal \<Rightarrow> part list \<Rightarrow> codepoint list list \<Rightarrow> view_args option" where
  "match_parts ucd [] [] = Some []"
| "match_parts ucd (p # ps) (s # ss) =
     (case match_part ucd p s of
        None \<Rightarrow> None
      | Some a \<Rightarrow>
          (case match_parts ucd ps ss of None \<Rightarrow> None | Some b \<Rightarrow> Some (a @ b)))"
| "match_parts ucd _ _ = None"

text \<open>Python's \<^verbatim>\<open>str.split(sep)\<close> for a one-character separator.\<close>

fun split_on :: "'a \<Rightarrow> 'a list \<Rightarrow> 'a list list" where
  "split_on c [] = [[]]"
| "split_on c (x # xs) =
     (if x = c then [] # split_on c xs
      else (case split_on c xs of
              w # ws \<Rightarrow> (x # w) # ws
            | [] \<Rightarrow> [[x]]))"

text \<open>
  Matching walks the rules in order and returns the first rule that fits the segments and
  accepts the verb. When there is none, it tells whether a rule fitted the segments for
  another verb, in this walk or in the one before (\<open>seen\<close>).
\<close>

fun match_rules ::
  "unicode_decimal \<Rightarrow> rule list \<Rightarrow> http_method \<Rightarrow> codepoint list list \<Rightarrow> bool \<Rightarrow>
     bool + (endpoint \<times> view_args)" where
  "match_rules ucd [] m segs seen = Inl seen"
| "match_rules ucd ((ps, ms, ep) # rs) m segs seen =
     (case match_parts ucd ps segs of
        None \<Rightarrow> match_rules ucd rs m segs seen
      | Some args \<Rightarrow>
          if m \<in> set ms then Inr (ep, args) else match_rules ucd rs m segs True)"

text \<open>
  The path that is matched: the request's path with its leading slashes replaced by one
  (\<^verbatim>\<open>"/" + path_info.lstrip("/")\<close>), and the empty path as it is.
\<close>

definition path_part :: "codepoint list \<Rightarrow> codepoint list" where
  "path_part path_info =
     (if path_info = [] then [] else 47 # dropWhile (\<lambda>c. c = 47) path_info)"

text \<open>
  \<^verbatim>\<open>re.sub("/{2,}?", "/", path)\<close>: from left to right, each pair of slashes
  becomes one slash.
\<close>

fun merge_slashes :: "codepoint list \<Rightarrow> codepoint list" where
  "merge_slashes (a # b # xs) =
     (if a = 47 \<and> b = 47 then 47 # merge_slashes xs else a # merge_slashes (b # xs))"
| "merge_slashes xs = xs"

text \<open>The segments of a path after its leading slash.\<close>

definition segments :: "codepoint list \<Rightarrow> codepoint list list" where
  "segments p = (case split_on 47 p of _ # segs \<Rightarrow> segs | [] \<Rightarrow> [])"

text \<open>
  Matching a request. The empty path lacks the slash of the index rule: a GET on it is
  redirected to \<^verbatim>\<open>/\<close>. Otherwise the path is matched as it is. When no rule fits,
  it is matched again with its slashes merged, and a request that fits then is redirected
  to the merged path. A path that fits no rule is 404; a path that fits a rule, but none
  for the request's verb, is 405.
\<close>

definition no_match :: "bool \<Rightarrow> exn" where
  "no_match seen =
     (if seen then HTTPException 405 ''Method Not Allowed''
      else HTTPException 404 ''Not Found'')"

definition url_match ::
  "unicode_decimal \<Rightarrow> http_method \<Rightarrow> codepoint list \<Rightarrow> exn + (endpoint \<times> view_args)" where
  "url_match ucd m path_info =
     (let p = path_part path_info in
      if p = [] then
        (if m = GET then Inl (RequestRedirect (ascii ''/'')) else Inl (no_match False))
      else
        (case match_rules ucd url_map m (segments p) False of
           Inr r \<Rightarrow> Inr r
         | Inl seen \<Rightarrow>
            (case match_rules ucd url_map m (segments (merge_slashes p)) seen of
               Inr r \<Rightarrow> Inl (RequestRedirect (merge_slashes p))
             | Inl seen' \<Rightarrow> Inl (no_match seen'))))"

subsection \<open>Dispatch\<close>

text \<open>
  Flask calls the view function of the matched endpoint with the URL's values as keyword
  arguments, \<^verbatim>\<open>view_functions[endpoint](**view_args)\<close>. A required parameter that is
  given no value makes the call itself raise \<open>TypeError\<close>, before the body runs.
\<close>

definition call_view :: "endpoint \<Rightarrow> view_args \<Rightarrow> string \<Rightarrow> request \<Rightarrow> store \<Rightarrow> outcome" where
  "call_view ep kw today req st =
     (case ep of
        Health \<Rightarrow> health req st
      | Index \<Rightarrow> index req st
      | Create_accounts \<Rightarrow> create_accounts today req st
      | List_accounts \<Rightarrow> list_accounts req st
      | Read_account \<Rightarrow>
          (case map_of kw ''account_id'' of
             Some account_id \<Rightarrow> read_account account_id req st
           | None \<Rightarrow> (Inl (TypeError ''read_account() missing 1 required positional argument''), st))
      | Update_account \<Rightarrow>
          (case map_of kw ''self'' of
             None \<Rightarrow> (Inl (TypeError ''update_account() missing 1 required positional argument''), st)
           | Some self \<Rightarrow>
              (case map_of kw ''account_id'' of
                 Some account_id \<Rightarrow> update_account self account_id req st
               | None \<Rightarrow> (Inl (TypeError ''update_account() missing 1 required positional argument''), st)))
      | Delete_account \<Rightarrow>
          (case map_of kw ''account_id'' of
             Some account_id \<Rightarrow> delete_account account_id req st
           | None \<Rightarrow> (Inl (TypeError ''delete_account() missing 1 required positional argument''), st)))"

definition dispatch_request :: "unicode_decimal \<Rightarrow> string \<Rightarrow> request \<Rightarrow> store \<Rightarrow> outcome" where
  "dispatch_request ucd today req st =
     (case url_match ucd (req_method req) (req_path req) of
        Inl e \<Rightarrow> (Inl e, st)
      | Inr (ep, kw) \<Rightarrow> call_view ep kw today req st)"

text \<open>One full request: routing, the view function, and the error handlers.\<close>

definition handle_request ::
  "unicode_decimal \<Rightarrow> string \<Rightarrow> request \<Rightarrow> store \<Rightarrow> response \<times> store" where
  "handle_request ucd today req st =
     (case dispatch_request ucd today req st of
        (Inl e, st') \<Rightarrow> (handle_exception e, st')
      | (Inr r, st') \<Rightarrow> (r, st'))"

section \<open>Client sessions and sample data\<close>

text \<open>A client sends requests one after the other; each sees the store its predecessor left.\<close>

fun run_requests ::
  "unicode_decimal \<Rightarrow> string \<Rightarrow> request list \<Rightarrow> store \<Rightarrow> response list \<times> store" where
  "run_requests ucd today [] st = ([], st)"
| "run_requests ucd today (r # rs) st =
     (case handle_request ucd today r st of
        (resp, st') \<Rightarrow>
          (case run_requests ucd today rs st' of
             (resps, st'') \<Rightarrow> (resp # resps, st'')))"

text \<open>A payload passes validation when deserialization accepts it.\<close>

definition passes_validation :: "string \<Rightarrow> json \<Rightarrow> bool" where
  "passes_validation today data =
     (case Account_deserialize today Account data of Inl _ \<Rightarrow> False | Inr _ \<Rightarrow> True)"

text \<open>
  A creation request that passes every check of \<open>create_accounts\<close>: a POST on
  \<^verbatim>\<open>/accounts\<close> that declares \<^verbatim>\<open>application/json\<close> and carries a payload that
  passes validation.
\<close>

definition valid_create_request :: "string \<Rightarrow> request \<Rightarrow> bool" where
  "valid_create_request today req =
     (req_method req = POST \<and> req_path req = ascii ''/accounts'' \<and>
      content_type req = Some ''application/json'' \<and>
      (case json_body req of None \<Rightarrow> False | Some data \<Rightarrow> passes_validation today data))"

definition required_fields :: "string list" where
  "required_fields = [''name'', ''email'', ''address'', ''phone_number'']"

definition missing_required_field :: "(string \<times> json) list \<Rightarrow> bool" where
  "missing_required_field kvs = list_ex (\<lambda>k. map_of kvs k = None) required_fields"

text \<open>The body of a response as a JSON value; an empty text body has none.\<close>

definition resp_json :: "response \<Rightarrow> json" where
  "resp_json r = (case resp_body r of Json j \<Rightarrow> j | Text _ \<Rightarrow> JNull)"

text \<open>The sample data of the specification's scenarios and of the test suite.\<close>

definition empty_store :: store where
  "empty_store = \<lparr>accounts = [], next_id = 1\<rparr>"

definition alice_payload :: json where
  "alice_payload =
     JObj [(''name'', JStr ''Alice''), (''email'', JStr ''a@x.com''),
           (''address'', JStr ''1 Main St''), (''phone_number'', JStr ''555-0100'')]"

definition updated_payload :: json where
  "updated_payload =
     JObj [(''name'', JStr ''Updated Name''), (''email'', JStr ''updated@example.com''),
           (''address'', JStr ''Updated Address''), (''phone_number'', JStr ''555-555-5555'')]"

definition bob_payload :: json where
  "bob_payload = JObj [(''name'', JStr ''Bob'')]"

definition no_name_payload :: json where
  "no_name_payload =
     JObj [(''email'', JStr ''a@x.com''), (''address'', JStr ''1 Main St''),
           (''phone_number'', JStr ''555-0100'')]"

definition alice :: account where
  "alice = \<lparr>acc_id = Some 1, name = ''Alice'', email = ''a@x.com'', address = ''1 Main St'',
            phone_number = ''555-0100'', date_joined = ''2024-01-01''\<rparr>"

definition alice_store :: store where
  "alice_store = \<lparr>accounts = [alice], next_id = 2\<rparr>"

definition json_request :: "http_method \<Rightarrow> string \<Rightarrow> json \<Rightarrow> request" where
  "json_request m p data =
     \<lparr>req_method = m, req_path = ascii p, content_type = Some ''application/json'',
      json_body = Some data\<rparr>"

definition typed_request :: "http_method \<Rightarrow> string \<Rightarrow> string \<Rightarrow> json \<Rightarrow> request" where
  "typed_request m p ct data =
     \<lparr>req_method = m, req_path = ascii p, content_type = Some ct, json_body = Some data\<rparr>"

definition bare_request :: "http_method \<Rightarrow> string \<Rightarrow> request" where
  "bare_request m p =
     \<lparr>req_method = m, req_path = ascii p, content_type = None, json_body = None\<rparr>"

text \<open>A request without body on a path of any characters.\<close>

definition path_request :: "http_method \<Rightarrow> codepoint list \<Rightarrow> request" where
  "path_request m p = \<lparr>req_method = m, req_path = p, content_type = None, json_body = None\<rparr>"

text \<open>
  A sample of the table of decimal digits beyond ASCII, for the requests that are
  evaluated below: the Arabic-Indic digits, U+0660 to U+0669, and the fullwidth digits,
  U+FF10 to U+FF19. The lemmas and theorems that are stated of every request hold for
  every table.
\<close>

definition sample_unicode :: unicode_decimal where
  "sample_unicode c =
     (if 1632 \<le> c \<and> c \<le> 1641 then Some (c - 1632)
      else if 65296 \<le> c \<and> c \<le> 65305 then Some (c - 65296)
      else None)"



definition second_account :: account where
  "second_account =
     \<lparr>acc_id = Some 2, name = ''Updated Name'', email = ''updated@example.com'',
      address = ''Updated Address'', phone_number = ''555-555-5555'',
      date_joined = ''2024-01-01''\<rparr>"

section \<open>Routing lemmas\<close>

lemma split_on_no_sep: "c \<notin> set xs \<Longrightarrow> split_on c xs = [xs]"
  by (induction xs) auto

lemma split_on_nonempty: "split_on c xs \<noteq> []"
  by (induction xs) (auto split: list.splits)

lemma digit_not_slash: "\<not> is_digit ucd 47"
  by (simp add: is_digit_def decimal_def)

lemma digits_no_slash: "list_all (is_digit ucd) ds \<Longrightarrow> 47 \<notin> set ds"
  by (induction ds) (auto simp: digit_not_slash)

lemma path_part_accounts_slash:
  "path_part (ascii ''/accounts/'' @ x) = ascii ''/accounts/'' @ x"
  by (simp add: path_part_def ascii_def)

lemma segments_accounts_slash:
  "segments (ascii ''/accounts/'' @ x) = ascii ''accounts'' # split_on 47 x"
proof -
  obtain w ws where "split_on (47::nat) x = w # ws"
    using split_on_nonempty [of 47 x] by (cases "split_on (47::nat) x") auto
  then show ?thesis by (simp add: segments_def ascii_def)
qed

lemma match_account_rules:
  assumes "ds \<noteq> []" and "list_all (is_digit ucd) ds"
  shows "match_rules ucd url_map GET [ascii ''accounts'', ds] False =
           Inr (Read_account, [(''account_id'', int (digits_to_nat ucd ds))])"
    and "match_rules ucd url_map PUT [ascii ''accounts'', ds] False =
           Inr (Update_account, [(''account_id'', int (digits_to_nat ucd ds))])"
    and "match_rules ucd url_map DELETE [ascii ''accounts'', ds] False =
           Inr (Delete_account, [(''account_id'', int (digits_to_nat ucd ds))])"
  using assms by (simp_all add: url_map_def ascii_def)

lemma url_match_account_id:
  assumes "ds \<noteq> []" and "list_all (is_digit ucd) ds"
  shows "url_match ucd GET (ascii ''/accounts/'' @ ds) =
           Inr (Read_account, [(''account_id'', int (digits_to_nat ucd ds))])"
    and "url_match ucd PUT (ascii ''/accounts/'' @ ds) =
           Inr (Update_account, [(''account_id'', int (digits_to_nat ucd ds))])"
    and "url_match ucd DELETE (ascii ''/accounts/'' @ ds) =
           Inr (Delete_account, [(''account_id'', int (digits_to_nat ucd ds))])"
proof -
  have ne: "ascii ''/accounts/'' @ ds \<noteq> []" by (simp add: ascii_def)
  have seg: "segments (ascii ''/accounts/'' @ ds) = [ascii ''accounts'', ds]"
    using assms(2) by (simp add: segments_accounts_slash split_on_no_sep digits_no_slash)
  show "url_match ucd GET (ascii ''/accounts/'' @ ds) =
           Inr (Read_account, [(''account_id'', int (digits_to_nat ucd ds))])"
    unfolding url_match_def Let_def path_part_accounts_slash seg
    using ne by (simp add: match_account_rules(1) [OF assms])
  show "url_match ucd PUT (ascii ''/accounts/'' @ ds) =
           Inr (Update_account, [(''account_id'', int (digits_to_nat ucd ds))])"
    unfolding url_match_def Let_def path_part_accounts_slash seg
    using ne by (simp add: match_account_rules(2) [OF assms])
  show "url_match ucd DELETE (ascii ''/accounts/'' @ ds) =
           Inr (Delete_account, [(''account_id'', int (digits_to_nat ucd ds))])"
    unfolding url_match_def Let_def path_part_accounts_slash seg
    using ne by (simp add: match_account_rules(3) [OF assms])
qed

lemma merge_slashes_no_slash: "47 \<notin> set x \<Longrightarrow> merge_slashes x = x"
  by (induction x rule: merge_slashes.induct) auto

lemma merge_slashes_slash_then: "47 \<notin> set x \<Longrightarrow> merge_slashes (47 # x) = 47 # x"
  by (cases x) (auto simp: merge_slashes_no_slash)

lemma merge_slashes_accounts_slash:
  assumes "47 \<notin> set x"
  shows "merge_slashes (ascii ''/accounts/'' @ x) = ascii ''/accounts/'' @ x"
  using merge_slashes_slash_then [OF assms] by (simp add: ascii_def)

lemma match_rules_not_integer:
  assumes "\<not> (x \<noteq> [] \<and> list_all (is_digit ucd) x)"
  shows "match_rules ucd url_map m [ascii ''accounts'', x] False = Inl False"
  using assms by (auto simp add: url_map_def ascii_def)

lemma url_match_not_integer:
  assumes "47 \<notin> set x" and "\<not> (x \<noteq> [] \<and> list_all (is_digit ucd) x)"
  shows "url_match ucd m (ascii ''/accounts/'' @ x) = Inl (HTTPException 404 ''Not Found'')"
proof -
  have ne: "ascii ''/accounts/'' @ x \<noteq> []" by (simp add: ascii_def)
  have seg: "segments (ascii ''/accounts/'' @ x) = [ascii ''accounts'', x]"
    using assms(1) by (simp add: segments_accounts_slash split_on_no_sep)
  show ?thesis
    unfolding url_match_def Let_def path_part_accounts_slash
      merge_slashes_accounts_slash [OF assms(1)] seg
    using ne by (simp add: match_rules_not_integer [OF assms(2)] no_match_def)
qed

text \<open>
  Every identifier has a URL: the decimal digits of \<open>n\<close> are accepted by the integer
  converter, which reads \<open>n\<close> back, whatever the table of the other digits.
\<close>

lemma decimal_ascii_digit: "d < 10 \<Longrightarrow> decimal ucd (48 + d) = Some d"
  by (simp add: decimal_def)

lemma ascii_digit_code: "d < 10 \<Longrightarrow> (of_char (char_of (48 + d :: nat)) :: nat) = 48 + d"
  by simp

lemma digits_of_nonempty: "digits_of n \<noteq> []"
  by (subst digits_of.simps) simp

lemma ascii_digits_of:
  "ascii (digits_of n) =
     (if n < 10 then [48 + n] else ascii (digits_of (n div 10)) @ [48 + n mod 10])"
proof (cases "n < 10")
  case True
  then show ?thesis
    by (subst digits_of.simps) (simp add: ascii_def)
next
  case False
  have "(of_char (char_of (48 + n mod 10 :: nat)) :: nat) = 48 + n mod 10"
    by (rule ascii_digit_code) simp
  with False show ?thesis
    by (subst digits_of.simps) (simp add: ascii_def)
qed

lemma digits_of_all_digits: "list_all (is_digit ucd) (ascii (digits_of n))"
proof (induction n rule: digits_of.induct)
  case (1 n)
  show ?case
  proof (cases "n < 10")
    case True
    then show ?thesis
      by (subst ascii_digits_of) (simp add: is_digit_def decimal_ascii_digit)
  next
    case False
    have "decimal ucd (48 + n mod 10) = Some (n mod 10)"
      by (rule decimal_ascii_digit) simp
    then have "is_digit ucd (48 + n mod 10)"
      by (simp add: is_digit_def)
    with False 1 show ?thesis by (subst ascii_digits_of) simp
  qed
qed

lemma digits_to_nat_snoc:
  "digits_to_nat ucd (ds @ [c]) =
     10 * digits_to_nat ucd ds + (case decimal ucd c of Some d \<Rightarrow> d | None \<Rightarrow> 0)"
  by (simp add: digits_to_nat_def)

lemma digits_to_nat_digits_of: "digits_to_nat ucd (ascii (digits_of n)) = n"
proof (induction n rule: digits_of.induct)
  case (1 n)
  show ?case
  proof (cases "n < 10")
    case True
    then show ?thesis
      by (subst ascii_digits_of) (simp add: digits_to_nat_def decimal_ascii_digit)
  next
    case False
    have d: "decimal ucd (48 + n mod 10) = Some (n mod 10)"
      by (rule decimal_ascii_digit) simp
    from False 1 d show ?thesis
      by (subst ascii_digits_of) (simp add: digits_to_nat_snoc)
  qed
qed

section \<open>Responses of the single routes\<close>

lemma status_error_response [simp]: "status (error_response code msg) = code"
  by (simp add: error_response_def make_response_def)

lemma status_make_response [simp]: "status (make_response b code hs) = code"
  by (simp add: make_response_def)

lemma handle_get_account:
  assumes "ds \<noteq> []" and "list_all (is_digit ucd) ds"
    and "req_method req = GET" and "req_path req = ascii ''/accounts/'' @ ds"
  shows "handle_request ucd today req st =
     (case Account_find st (int (digits_to_nat ucd ds)) of
        Some a \<Rightarrow> (make_response (Json (Account_serialize a)) 200 [], st)
      | None \<Rightarrow> (error_response 404 (not_found_message (int (digits_to_nat ucd ds))), st))"
  using assms url_match_account_id(1) [OF assms(1,2)]
  by (simp add: handle_request_def dispatch_request_def call_view_def read_account_def
      split: option.splits)

lemma handle_put_account:
  assumes "ds \<noteq> []" and "list_all (is_digit ucd) ds"
    and "req_method req = PUT" and "req_path req = ascii ''/accounts/'' @ ds"
  shows "handle_request ucd today req st =
     (error_response 500 ''update_account() missing 1 required positional argument'', st)"
  using assms url_match_account_id(2) [OF assms(1,2)]
  by (simp add: handle_request_def dispatch_request_def call_view_def)

lemma handle_delete_account:
  assumes "ds \<noteq> []" and "list_all (is_digit ucd) ds"
    and "req_method req = DELETE" and "req_path req = ascii ''/accounts/'' @ ds"
  shows "handle_request ucd today req st =
     (make_response (Text []) 204 [],
      (case Account_find st (int (digits_to_nat ucd ds)) of
         Some a \<Rightarrow> Account_delete a st
       | None \<Rightarrow> st))"
  using assms url_match_account_id(3) [OF assms(1,2)]
  by (simp add: handle_request_def dispatch_request_def call_view_def delete_account_def
      split: option.splits)

lemma find_Some_id: "List.find (\<lambda>a. acc_id a = Some i) xs = Some a \<Longrightarrow> acc_id a = Some i"
  by (induction xs) (auto split: if_splits)

lemma find_filter_None:
  "List.find (\<lambda>a. acc_id a = Some i) (filter (\<lambda>b. acc_id b \<noteq> Some i) xs) = None"
  by (induction xs) auto

lemma find_None_filter:
  "List.find (\<lambda>a. acc_id a = Some i) xs = None \<Longrightarrow> filter (\<lambda>b. acc_id b \<noteq> Some i) xs = xs"
  by (induction xs) (auto split: if_splits)

lemma Account_find_after_delete:
  "Account_find st i = Some a \<Longrightarrow> Account_find (Account_delete a st) i = None"
  by (auto simp: Account_find_def Account_delete_def find_filter_None dest!: find_Some_id)

lemma Account_find_Some:
  "Account_find st i = Some a \<Longrightarrow> a \<in> set (accounts st) \<and> acc_id a = Some i"
  unfolding Account_find_def by (auto simp: find_Some_iff)

lemma Account_find_None:
  "Account_find st i = None \<Longrightarrow> \<forall>b \<in> set (accounts st). acc_id b \<noteq> Some i"
  unfolding Account_find_def by (auto simp: find_None_iff)

lemma url_match_post_accounts:
  "url_match ucd POST (ascii ''/accounts'') = Inr (Create_accounts, [])"
  by (simp add: url_match_def path_part_def segments_def url_map_def ascii_def)

lemma url_match_get_accounts:
  "url_match ucd GET (ascii ''/accounts'') = Inr (List_accounts, [])"
  by (simp add: url_match_def path_part_def segments_def url_map_def ascii_def)

lemma mimetype_of_application_json:
  "mimetype_of (Some ''application/json'') = ''application/json''"
  by code_simp

lemma is_json_application_json:
  "content_type req = Some ''application/json'' \<Longrightarrow> is_json req"
  by (simp add: is_json_def mimetype_def mimetype_of_application_json)

lemma text_field_error:
  "text_field kvs k = Inl e \<Longrightarrow> \<exists>m. e = DataValidationError m"
  by (auto simp: text_field_def split: option.splits json.splits)

lemma date_field_error:
  "date_field today kvs = Inl e \<Longrightarrow> \<exists>m. e = DataValidationError m"
  by (auto simp: date_field_def split: option.splits json.splits)

lemma Account_deserialize_error:
  "Account_deserialize today a data = Inl e \<Longrightarrow> \<exists>m. e = DataValidationError m"
  by (auto simp: Account_deserialize_def split: json.splits sum.splits
      dest: text_field_error date_field_error)

lemma create_accounts_unfold:
  "create_accounts today req st =
     (if content_type req = Some ''application/json'' then
        (case json_body req of
           None \<Rightarrow> (Inl (HTTPException 400 ''Failed to decode JSON object''), st)
         | Some data \<Rightarrow>
            (case Account_deserialize today Account data of
               Inl e \<Rightarrow> (Inl e, st)
             | Inr a \<Rightarrow>
                (Inr (make_response (Json (Account_serialize (a\<lparr>acc_id := Some (next_id st)\<rparr>)))
                        201 [(''Location'', ''/'')]),
                 snd (Account_create a st))))
      else (Inl (HTTPException 415 ''Content-Type must be application/json''), st))"
  by (auto simp: create_accounts_def check_content_type_def get_json_def Account_create_def
      is_json_application_json Let_def split: option.splits sum.splits)

lemma handle_post_accounts:
  assumes "req_method req = POST" and "req_path req = ascii ''/accounts''"
  shows "handle_request ucd today req st =
     (case create_accounts today req st of
        (Inl e, st') \<Rightarrow> (handle_exception e, st')
      | (Inr r, st') \<Rightarrow> (r, st'))"
  using assms
  by (simp add: handle_request_def dispatch_request_def url_match_post_accounts call_view_def)

text \<open>
  A creation request that does not declare \<^verbatim>\<open>application/json\<close> is refused
  with 415 whatever its body holds, and the store is not touched.
\<close>

lemma post_wrong_content_type:
  assumes "req_method req = POST" and "req_path req = ascii ''/accounts''"
    and "content_type req \<noteq> Some ''application/json''"
  shows "handle_request ucd today req st =
     (error_response 415 ''Content-Type must be application/json'', st)"
  using assms(3)
  by (simp add: handle_post_accounts [OF assms(1,2)] create_accounts_unfold)

lemma handle_get_accounts:
  assumes "req_method req = GET" and "req_path req = ascii ''/accounts''"
  shows "handle_request ucd today req st =
     (make_response (Json (JList (map Account_serialize (Account_all st)))) 200 [], st)"
  using assms
  by (simp add: handle_request_def dispatch_request_def url_match_get_accounts call_view_def
      list_accounts_def)

lemma handle_valid_create:
  assumes "valid_create_request today req"
  shows "\<exists>a. handle_request ucd today req st =
           (make_response (Json (Account_serialize (a\<lparr>acc_id := Some (next_id st)\<rparr>))) 201
              [(''Location'', ''/'')],
            st\<lparr>accounts := accounts st @ [a\<lparr>acc_id := Some (next_id st)\<rparr>],
               next_id := next_id st + 1\<rparr>)"
  using assms
  by (auto simp: valid_create_request_def passes_validation_def handle_post_accounts
      create_accounts_unfold Account_create_def Let_def split: option.splits sum.splits)

section \<open>Sequences of creations\<close>

lemma serialize_id:
  assumes "Account_serialize a = Account_serialize b"
  shows "acc_id a = acc_id b"
proof -
  have "\<And>x y. (case x of None \<Rightarrow> JNull | Some i \<Rightarrow> JInt i) =
     (case y of None \<Rightarrow> JNull | Some (i::int) \<Rightarrow> JInt i) \<Longrightarrow> x = y"
    by (simp split: option.splits)
  moreover from assms have
    "(case acc_id a of None \<Rightarrow> JNull | Some i \<Rightarrow> JInt i) =
     (case acc_id b of None \<Rightarrow> JNull | Some i \<Rightarrow> JInt i)"
    unfolding Account_serialize_def by (elim json.inject [THEN iffD1, elim_format]) simp
  ultimately show ?thesis by blast
qed

lemma distinct_map_transfer:
  assumes "distinct (map f xs)" and inj: "\<And>x y. g x = g y \<Longrightarrow> f x = f y"
  shows "distinct (map g xs)"
  using assms(1)
proof (induction xs)
  case Nil
  then show ?case by simp
next
  case (Cons x xs)
  have "g x \<notin> g ` set xs"
  proof
    assume "g x \<in> g ` set xs"
    then obtain y where "y \<in> set xs" "g x = g y" by blast
    then have "f x \<in> f ` set xs" using inj [of x y] by force
    with Cons.prems show False by simp
  qed
  with Cons show ?case by simp
qed

lemma run_valid_creates:
  assumes "list_all (valid_create_request today) rs"
    and "run_requests ucd today rs st = (resps, st')"
  shows "\<exists>created.
           accounts st' = accounts st @ created \<and>
           next_id st' = next_id st + int (length rs) \<and>
           length resps = length rs \<and>
           map resp_json resps = map Account_serialize created \<and>
           list_all (\<lambda>r. status r = 201) resps \<and>
           distinct (map acc_id created) \<and>
           (\<forall>a \<in> set created. \<exists>i. acc_id a = Some i \<and> next_id st \<le> i)"
  using assms
proof (induction rs arbitrary: st resps st')
  case Nil
  then show ?case by simp
next
  case (Cons r rs)
  from Cons.prems(1) have v: "valid_create_request today r"
    and vs: "list_all (valid_create_request today) rs" by simp_all
  from handle_valid_create [OF v, where st = st and ucd = ucd] obtain a where
    h: "handle_request ucd today r st =
          (make_response (Json (Account_serialize (a\<lparr>acc_id := Some (next_id st)\<rparr>))) 201
             [(''Location'', ''/'')],
           st\<lparr>accounts := accounts st @ [a\<lparr>acc_id := Some (next_id st)\<rparr>],
              next_id := next_id st + 1\<rparr>)"
    by blast
  define a1 where "a1 = a\<lparr>acc_id := Some (next_id st)\<rparr>"
  define st1 where "st1 = st\<lparr>accounts := accounts st @ [a1], next_id := next_id st + 1\<rparr>"
  define r1 where "r1 = make_response (Json (Account_serialize a1)) 201 [(''Location'', ''/'')]"
  from h have h1: "handle_request ucd today r st = (r1, st1)"
    by (simp add: a1_def st1_def r1_def)
  obtain resps1 st2 where run1: "run_requests ucd today rs st1 = (resps1, st2)"
    by (cases "run_requests ucd today rs st1") auto
  with h1 Cons.prems(2) have eq: "resps = r1 # resps1" "st' = st2" by auto
  from Cons.IH [OF vs run1] obtain created where
    c: "accounts st2 = accounts st1 @ created"
      "next_id st2 = next_id st1 + int (length rs)"
      "length resps1 = length rs"
      "map resp_json resps1 = map Account_serialize created"
      "list_all (\<lambda>r. status r = 201) resps1"
      "distinct (map acc_id created)"
      "\<forall>a \<in> set created. \<exists>i. acc_id a = Some i \<and> next_id st1 \<le> i"
    by blast
  have id1: "acc_id a1 = Some (next_id st)" by (simp add: a1_def)
  have nid: "next_id st1 = next_id st + 1" by (simp add: st1_def)
  have fresh: "acc_id a1 \<notin> set (map acc_id created)"
  proof
    assume "acc_id a1 \<in> set (map acc_id created)"
    then obtain b where "b \<in> set created" "acc_id b = Some (next_id st)"
      using id1 by auto
    with c(7) nid show False by force
  qed
  have f1: "accounts st' = accounts st @ (a1 # created)"
    using c(1) eq by (simp add: st1_def)
  have f2: "next_id st' = next_id st + int (length (r # rs))"
    using c(2) eq nid by simp
  have f3: "length resps = length (r # rs)"
    using c(3) eq by simp
  have "resp_json r1 = Account_serialize a1"
    by (simp add: r1_def resp_json_def make_response_def)
  then have f4: "map resp_json resps = map Account_serialize (a1 # created)"
    using c(4) eq by simp
  have "status r1 = 201"
    by (simp add: r1_def make_response_def)
  then have f5: "list_all (\<lambda>r. status r = 201) resps"
    using c(5) eq by simp
  have f6: "distinct (map acc_id (a1 # created))"
    using c(6) fresh by simp
  have f7: "\<forall>b \<in> set (a1 # created). \<exists>i. acc_id b = Some i \<and> next_id st \<le> i"
  proof
    fix b assume "b \<in> set (a1 # created)"
    then consider "b = a1" | "b \<in> set created" by auto
    then show "\<exists>i. acc_id b = Some i \<and> next_id st \<le> i"
    proof cases
      case 1
      then show ?thesis using id1 by simp
    next
      case 2
      with c(7) obtain i where "acc_id b = Some i" "next_id st1 \<le> i" by blast
      then show ?thesis using nid by auto
    qed
  qed
  show ?case
    by (rule exI [of _ "a1 # created"]) (intro conjI f1 f2 f3 f4 f5 f6 f7)
qed

section \<open>Validation failures\<close>

lemma text_field_missing: "map_of kvs k = None \<Longrightarrow> \<exists>m. text_field kvs k = Inl (DataValidationError m)"
  by (simp add: text_field_def)

lemma deserialize_missing_field:
  assumes "missing_required_field kvs"
  shows "\<exists>m. Account_deserialize today a (JObj kvs) = Inl (DataValidationError m)"
proof (cases "Account_deserialize today a (JObj kvs)")
  case (Inl e)
  then show ?thesis using Account_deserialize_error by blast
next
  case (Inr b)
  then obtain n m ad ph where
    ok: "text_field kvs ''name'' = Inr n" "text_field kvs ''email'' = Inr m"
      "text_field kvs ''address'' = Inr ad" "text_field kvs ''phone_number'' = Inr ph"
    by (auto simp: Account_deserialize_def split: sum.splits)
  from assms consider "map_of kvs ''name'' = None" | "map_of kvs ''email'' = None"
    | "map_of kvs ''address'' = None" | "map_of kvs ''phone_number'' = None"
    by (auto simp: missing_required_field_def required_fields_def)
  then have False
  proof cases
    case 1 with ok(1) show False by (simp add: text_field_def)
  next
    case 2 with ok(2) show False by (simp add: text_field_def)
  next
    case 3 with ok(3) show False by (simp add: text_field_def)
  next
    case 4 with ok(4) show False by (simp add: text_field_def)
  qed
  then show ?thesis ..
qed

section \<open>Which requests touch the store\<close>

lemma match_rules_sound:
  "match_rules ucd rs m segs seen = Inr (ep, kw) \<Longrightarrow>
     \<exists>ps ms. (ps, ms, ep) \<in> set rs \<and> m \<in> set ms \<and> match_parts ucd ps segs = Some kw"
proof (induction ucd rs m segs seen rule: match_rules.induct)
  case (1 ucd m segs seen)
  then show ?case by simp
next
  case (2 ucd ps ms ep' rs m segs seen)
  show ?case
  proof (cases "match_parts ucd ps segs")
    case None
    with 2 obtain ps' ms' where "(ps', ms', ep) \<in> set rs" "m \<in> set ms'"
      "match_parts ucd ps' segs = Some kw" by auto
    then show ?thesis by auto
  next
    case (Some args)
    show ?thesis
    proof (cases "m \<in> set ms")
      case True
      with "2.prems" Some have "ep = ep'" "args = kw" by simp_all
      with True Some show ?thesis by auto
    next
      case False
      with 2 Some obtain ps' ms' where "(ps', ms', ep) \<in> set rs" "m \<in> set ms'"
        "match_parts ucd ps' segs = Some kw" by auto
      then show ?thesis by auto
    qed
  qed
qed

lemma url_match_rule:
  assumes "url_match ucd m p = Inr (ep, kw)"
  shows "\<exists>ps ms segs. (ps, ms, ep) \<in> set url_map \<and> m \<in> set ms \<and>
           match_parts ucd ps segs = Some kw"
proof -
  from assms have "match_rules ucd url_map m (segments (path_part p)) False = Inr (ep, kw)"
    by (auto simp: url_match_def Let_def split: if_splits sum.splits)
  from match_rules_sound [OF this] show ?thesis by blast
qed

lemma url_match_endpoint:
  assumes "url_match ucd m p = Inr (ep, kw)"
  shows "(m = GET \<longrightarrow> ep \<in> {Health, Index, List_accounts, Read_account}) \<and>
         (m = POST \<longrightarrow> ep = Create_accounts) \<and>
         (m = PUT \<longrightarrow> ep = Update_account)"
proof -
  from url_match_rule [OF assms] obtain ps ms where
    "(ps, ms, ep) \<in> set url_map" "m \<in> set ms" by blast
  then show ?thesis by (auto simp: url_map_def)
qed

lemma match_int_rule_args:
  assumes "match_parts ucd [Static s, IntConverter n] segs = Some kw"
  shows "\<exists>v. kw = [(n, v)]"
proof (cases segs)
  case Nil
  with assms show ?thesis by simp
next
  case (Cons a as)
  show ?thesis
  proof (cases as)
    case Nil
    with assms Cons show ?thesis by (simp split: if_splits)
  next
    case (Cons b bs)
    with assms \<open>segs = a # as\<close> show ?thesis
      by (cases bs) (auto split: if_splits option.splits)
  qed
qed

lemma url_match_put_no_self:
  assumes "url_match ucd PUT p = Inr (ep, kw)"
  shows "ep = Update_account \<and> map_of kw ''self'' = None"
proof -
  from url_match_rule [OF assms] obtain ps ms segs where
    r: "(ps, ms, ep) \<in> set url_map" "PUT \<in> set ms" "match_parts ucd ps segs = Some kw"
    by blast
  from r(1,2) have "ep = Update_account"
    and "ps = [Static ''accounts'', IntConverter ''account_id'']"
    by (auto simp: url_map_def)
  with r(3) match_int_rule_args [of ucd "''accounts''" "''account_id''" segs kw]
  show ?thesis by auto
qed

lemma url_match_error_status:
  assumes "url_match ucd m p = Inl e"
  shows "status (handle_exception e) \<in> {308, 404, 405}"
proof -
  from assms have "(\<exists>q. e = RequestRedirect q) \<or> (\<exists>seen. e = no_match seen)"
    by (auto simp: url_match_def Let_def split: if_splits sum.splits)
  then show ?thesis by (auto simp: no_match_def)
qed

text \<open>A request that the routing layer refuses leaves the store as it is.\<close>

lemma handle_refused:
  assumes "url_match ucd (req_method req) (req_path req) = Inl e"
  shows "handle_request ucd today req st = (handle_exception e, st)"
  using assms by (simp add: handle_request_def dispatch_request_def)

lemma get_store_unchanged:
  assumes "req_method req = GET"
  shows "snd (handle_request ucd today req st) = st"
proof (cases "url_match ucd GET (req_path req)")
  case (Inl e)
  with assms show ?thesis by (simp add: handle_request_def dispatch_request_def)
next
  case (Inr a)
  obtain ep kw where a: "a = (ep, kw)" by (cases a) auto
  with Inr url_match_endpoint [of ucd GET "req_path req" ep kw]
  have "ep \<in> {Health, Index, List_accounts, Read_account}" by simp
  then consider "ep = Health" | "ep = Index" | "ep = List_accounts" | "ep = Read_account"
    by auto
  then show ?thesis
  proof cases
    case 1
    with assms Inr a show ?thesis
      by (simp add: handle_request_def dispatch_request_def call_view_def health_def)
  next
    case 2
    with assms Inr a show ?thesis
      by (simp add: handle_request_def dispatch_request_def call_view_def index_def)
  next
    case 3
    with assms Inr a show ?thesis
      by (simp add: handle_request_def dispatch_request_def call_view_def list_accounts_def)
  next
    case 4
    with assms Inr a show ?thesis
      by (simp add: handle_request_def dispatch_request_def call_view_def read_account_def
          split: option.splits)
  qed
qed

lemma create_accounts_outcome:
  "(\<exists>e. create_accounts today req st = (Inl e, st) \<and> status (handle_exception e) \<in> {400, 415}) \<or>
   (\<exists>a r. create_accounts today req st = (Inr r, snd (Account_create a st)) \<and> status r = 201)"
proof (cases "content_type req = Some ''application/json''")
  case False
  then show ?thesis by (simp add: create_accounts_unfold)
next
  case True
  show ?thesis
  proof (cases "json_body req")
    case None
    with True show ?thesis by (simp add: create_accounts_unfold)
  next
    case (Some data)
    show ?thesis
    proof (cases "Account_deserialize today Account data")
      case (Inl e)
      then obtain m where "e = DataValidationError m"
        using Account_deserialize_error by blast
      with True Some Inl show ?thesis by (simp add: create_accounts_unfold)
    next
      case (Inr a)
      with True Some have
        "create_accounts today req st =
           (Inr (make_response (Json (Account_serialize (a\<lparr>acc_id := Some (next_id st)\<rparr>)))
                   201 [(''Location'', ''/'')]),
            snd (Account_create a st))"
        by (simp add: create_accounts_unfold)
      then show ?thesis by (intro disjI2 exI [of _ a]) simp
    qed
  qed
qed

text \<open>A creation that is answered 201 leaves the store that one \<open>Account_create\<close> makes.\<close>

lemma post_success_one_create:
  assumes "req_method req = POST"
    and "status (fst (handle_request ucd today req st)) = 201"
  shows "\<exists>a. snd (handle_request ucd today req st) = snd (Account_create a st)"
proof (cases "url_match ucd POST (req_path req)")
  case (Inl e)
  with assms url_match_error_status [OF Inl] show ?thesis
    by (simp add: handle_request_def dispatch_request_def)
next
  case (Inr b)
  obtain ep kw where b: "b = (ep, kw)" by (cases b) auto
  with Inr url_match_endpoint [of ucd POST "req_path req" ep kw]
  have ep: "ep = Create_accounts" by simp
  have h: "handle_request ucd today req st =
      (case create_accounts today req st of
         (Inl e, st') \<Rightarrow> (handle_exception e, st')
       | (Inr r, st') \<Rightarrow> (r, st'))"
    using assms(1) Inr b ep
    by (simp add: handle_request_def dispatch_request_def call_view_def)
  from create_accounts_outcome [of today req st] show ?thesis
  proof
    assume "\<exists>e. create_accounts today req st = (Inl e, st) \<and>
                status (handle_exception e) \<in> {400, 415}"
    with h assms(2) show ?thesis by auto
  next
    assume "\<exists>a r. create_accounts today req st = (Inr r, snd (Account_create a st)) \<and>
                  status r = 201"
    with h show ?thesis by auto
  qed
qed

text \<open>
  No PUT request is answered 200, and none changes the store: either the routing layer
  refuses the request, or the call of \<open>update_account\<close> lacks the argument \<open>self\<close>.
\<close>

lemma put_never_succeeds:
  assumes "req_method req = PUT"
  shows "status (fst (handle_request ucd today req st)) \<in> {308, 404, 405, 500} \<and>
         snd (handle_request ucd today req st) = st"
proof (cases "url_match ucd PUT (req_path req)")
  case (Inl e)
  with assms url_match_error_status [OF Inl] show ?thesis
    by (auto simp add: handle_request_def dispatch_request_def)
next
  case (Inr b)
  obtain ep kw where b: "b = (ep, kw)" by (cases b) auto
  with Inr url_match_put_no_self [of ucd "req_path req" ep kw]
  have "ep = Update_account" "map_of kw ''self'' = None" by simp_all
  with assms Inr b show ?thesis
    by (simp add: handle_request_def dispatch_request_def call_view_def)
qed

section \<open>Paths beyond the plain ones\<close>

text \<open>
  A segment of decimal digits beyond ASCII reaches the view functions like its ASCII
  spelling: with the sample table, the fullwidth digit one reads account 1, and the
  Arabic-Indic digit one deletes it.
\<close>

lemma unicode_digits_are_routed:
  "handle_request sample_unicode ''2024-01-01''
     (path_request GET (ascii ''/accounts/'' @ [65297])) alice_store =
     (make_response (Json (Account_serialize alice)) 200 [], alice_store) \<and>
   handle_request sample_unicode ''2024-01-01''
     (path_request DELETE (ascii ''/accounts/'' @ [1633])) alice_store =
     (make_response (Text []) 204 [], \<lparr>accounts = [], next_id = 2\<rparr>)"
proof -
  have d: "list_all (is_digit sample_unicode) [65297]" "list_all (is_digit sample_unicode) [1633]"
    by (simp_all add: is_digit_def decimal_def sample_unicode_def)
  have v: "int (digits_to_nat sample_unicode [65297]) = 1"
    "int (digits_to_nat sample_unicode [1633]) = 1"
    by (simp_all add: digits_to_nat_def decimal_def sample_unicode_def)
  have f: "Account_find alice_store 1 = Some alice"
    by code_simp
  have del: "Account_delete alice alice_store = \<lparr>accounts = [], next_id = 2\<rparr>"
    by code_simp
  show ?thesis
    using
      handle_get_account [where ds = "[65297]" and ucd = sample_unicode
        and today = "''2024-01-01''" and st = alice_store
        and req = "path_request GET (ascii ''/accounts/'' @ [65297])"]
      handle_delete_account [where ds = "[1633]" and ucd = sample_unicode
        and today = "''2024-01-01''" and st = alice_store
        and req = "path_request DELETE (ascii ''/accounts/'' @ [1633])"]
      d v f del
    by (simp add: path_request_def)
qed

text \<open>
  Leading slashes count as one; a doubled slash inside a path that fits a rule once
  merged is answered by a redirect, and the store is left as it is.
\<close>

lemma slashes_are_merged:
  "fst (handle_request sample_unicode ''2024-01-01'' (bare_request GET ''//accounts/1'')
     alice_store) = make_response (Json (Account_serialize alice)) 200 [] \<and>
   dispatch_request sample_unicode ''2024-01-01'' (bare_request GET ''/accounts//1'')
     alice_store = (Inl (RequestRedirect (ascii ''/accounts/1'')), alice_store) \<and>
   status (fst (handle_request sample_unicode ''2024-01-01''
     (bare_request DELETE ''/accounts//1'') alice_store)) = 308 \<and>
   snd (handle_request sample_unicode ''2024-01-01''
     (bare_request DELETE ''/accounts//1'') alice_store) = alice_store"
  by code_simp

text \<open>
  The body of \<open>update_account\<close> reads the payload only of a request that declares a
  JSON type: entered for the existing account 1 with a body declared
  \<^verbatim>\<open>text/html\<close>, it raises 415 after it has found the account, and leaves the
  store as it is.
\<close>

lemma update_account_body_checks_json_type:
  "update_account 0 1
      (typed_request PUT ''/accounts/1'' ''text/html'' updated_payload) alice_store =
     (Inl (HTTPException 415 not_json_message), alice_store)"
  by code_simp

section \<open>The claims of the specification\<close>

subsection \<open>Update of an account (PUT)\<close>

text \<open>
  Claim C1. For every persisted account with identifier \<open>id\<close>, a PUT request to
  \<^verbatim>\<open>/accounts/{id}\<close> whose payload passes validation returns 200 with the
  serialized Account reflecting the new values, and a following GET returns the new values.

  The code does not do this. The view function is declared
  \<^verbatim>\<open>def update_account(self, account_id)\<close>, and the dispatcher passes the URL's
  values only, so the call raises before the body runs (\<open>handle_put_account\<close>, for every
  PUT on an account URL). At the request of the test suite's
  \<^verbatim>\<open>test_update_account\<close>, a full valid payload for the existing account 1, the
  answer is 500, the store is unchanged, and the following GET still shows the old name.
\<close>

theorem put_valid_payload_answers_500:
  "Account_find alice_store 1 = Some alice \<and>
   status (fst (handle_request sample_unicode ''2024-01-01''
      (json_request PUT ''/accounts/1'' updated_payload) alice_store)) = 500 \<and>
   snd (handle_request sample_unicode ''2024-01-01''
      (json_request PUT ''/accounts/1'' updated_payload) alice_store) = alice_store \<and>
   fst (handle_request sample_unicode ''2024-01-01'' (bare_request GET ''/accounts/1'') alice_store) =
     make_response (Json (Account_serialize alice)) 200 [] \<and>
   name alice = ''Alice''"
  by code_simp

text \<open>
  Claim C4. For every identifier for which no account exists, a PUT request to
  \<^verbatim>\<open>/accounts/{id}\<close> returns 404 and leaves the store unchanged.

  The store is left unchanged, but the answer is 500, not 404: the call of
  \<open>update_account\<close> fails before its body can look the account up. This is the defect
  of claim C1.
\<close>

theorem put_absent_account_answers_500:
  "Account_find empty_store 999 = None \<and>
   status (fst (handle_request sample_unicode ''2024-01-01''
      (json_request PUT ''/accounts/999'' updated_payload) empty_store)) = 500 \<and>
   status (fst (handle_request sample_unicode ''2024-01-01''
      (json_request PUT ''/accounts/999'' updated_payload) empty_store)) \<noteq> 404 \<and>
   snd (handle_request sample_unicode ''2024-01-01''
      (json_request PUT ''/accounts/999'' updated_payload) empty_store) = empty_store"
  by code_simp

text \<open>
  Claim C3. For every body-bearing request (POST \<^verbatim>\<open>/accounts\<close> and PUT
  \<^verbatim>\<open>/accounts/{id}\<close>), a missing or different Content-Type gives 415, before any
  model-layer work.

  \<open>create_accounts\<close> calls \<open>check_content_type\<close> first (lemma
  \<open>post_wrong_content_type\<close>). \<open>update_account\<close> never calls it: a PUT that
  declares \<^verbatim>\<open>text/html\<close> is answered 500 (the defect of claim C1), and the body of
  \<open>update_account\<close>, entered with both arguments, asks the model for the account before
  it looks at the request, so that an unknown identifier is answered 404 whatever the
  declared type.
\<close>

theorem put_wrong_content_type_not_415:
  "status (fst (handle_request sample_unicode ''2024-01-01''
      (typed_request PUT ''/accounts/1'' ''text/html'' updated_payload) alice_store)) = 500 \<and>
   status (fst (handle_request sample_unicode ''2024-01-01''
      (typed_request PUT ''/accounts/1'' ''text/html'' updated_payload) alice_store)) \<noteq> 415 \<and>
   status (fst (handle_request sample_unicode ''2024-01-01''
      (bare_request PUT ''/accounts/1'') alice_store)) = 500 \<and>
   update_account 0 999 (typed_request PUT ''/accounts/999'' ''text/html'' updated_payload)
      empty_store =
     (Inl (HTTPException 404 ''Account with id [999] could not be found.''), empty_store)"
  by code_simp

subsection \<open>Creation of an account (POST)\<close>

text \<open>
  Claim C2. For every POST request to \<^verbatim>\<open>/accounts\<close> whose payload passes
  validation, the response is 201, its body is the serialized Account with the
  store-generated id, and its Location header points at the new resource.

  The status and the body are as claimed, but \<open>create_accounts\<close> sets the Location
  header to the fixed path \<^verbatim>\<open>/\<close>, the placeholder its comments say to remove
  (lemma \<open>handle_valid_create\<close>, for every valid creation). In scenario 1 of the
  specification the new account is at \<^verbatim>\<open>/accounts/1\<close>, where a GET finds it; a
  GET on \<^verbatim>\<open>/\<close> returns the service metadata.
\<close>

theorem create_location_header_is_root:
  "valid_create_request ''2024-01-01'' (json_request POST ''/accounts'' alice_payload) \<and>
   handle_request sample_unicode ''2024-01-01'' (json_request POST ''/accounts'' alice_payload) empty_store =
     (make_response (Json (Account_serialize alice)) 201 [(''Location'', ''/'')],
      alice_store) \<and>
   acc_id alice = Some 1 \<and>
   map_of (headers (fst (handle_request sample_unicode ''2024-01-01''
      (json_request POST ''/accounts'' alice_payload) empty_store))) ''Location'' = Some ''/'' \<and>
   ''/'' \<noteq> ''/accounts/'' @ str_int 1 \<and>
   fst (handle_request sample_unicode ''2024-01-01'' (bare_request GET (''/accounts/'' @ str_int 1))
      alice_store) = make_response (Json (Account_serialize alice)) 200 [] \<and>
   fst (handle_request sample_unicode ''2024-01-01'' (bare_request GET ''/'') alice_store) =
     make_response (Json (JObj [(''name'', JStr ''Account REST API Service''),
                                (''version'', JStr ''1.0'')])) 200 []"
  by code_simp

text \<open>
  Claim C8. For every POST request to \<^verbatim>\<open>/accounts\<close> whose payload is missing a
  required field, the response is 400 and the store is not mutated.

  As stated the claim fails: \<open>create_accounts\<close> checks the declared Content-Type before
  it reads the payload, so a request that declares \<^verbatim>\<open>text/html\<close> is answered 415
  even when its payload has no \<open>name\<close>.
\<close>

theorem create_missing_field_wrong_type_415:
  "missing_required_field [(''email'', JStr ''a@x.com''), (''address'', JStr ''1 Main St''),
      (''phone_number'', JStr ''555-0100'')] \<and>
   json_body (typed_request POST ''/accounts'' ''text/html'' no_name_payload) =
     Some (JObj [(''email'', JStr ''a@x.com''), (''address'', JStr ''1 Main St''),
      (''phone_number'', JStr ''555-0100'')]) \<and>
   status (fst (handle_request sample_unicode ''2024-01-01''
      (typed_request POST ''/accounts'' ''text/html'' no_name_payload) empty_store)) = 415 \<and>
   status (fst (handle_request sample_unicode ''2024-01-01''
      (typed_request POST ''/accounts'' ''text/html'' no_name_payload) empty_store)) \<noteq> 400"
  by code_simp

text \<open>
  Claim C8, amended. For every POST request to \<^verbatim>\<open>/accounts\<close> that declares the
  Content-Type \<^verbatim>\<open>application/json\<close> and whose payload is a mapping missing a
  required field, the response is 400 and the store is not mutated: it is the same store,
  with the same number of accounts.
\<close>

theorem create_missing_field_400_no_write:
  assumes "req_method req = POST" and "req_path req = ascii ''/accounts''"
    and "content_type req = Some ''application/json''"
    and "json_body req = Some (JObj kvs)"
    and "missing_required_field kvs"
  shows "status (fst (handle_request ucd today req st)) = 400 \<and>
         snd (handle_request ucd today req st) = st \<and>
         length (Account_all (snd (handle_request ucd today req st))) = length (Account_all st)"
proof -
  from deserialize_missing_field [OF assms(5), of today Account] obtain m where
    "Account_deserialize today Account (JObj kvs) = Inl (DataValidationError m)" ..
  then have "handle_request ucd today req st = (error_response 400 m, st)"
    using assms(3,4)
    by (simp add: handle_post_accounts [OF assms(1,2)] create_accounts_unfold)
  then show ?thesis by simp
qed

text \<open>
  The amended claim C8 at the request of the specification's scenario 2, a payload with a
  \<open>name\<close> only, on a store that holds one account.
\<close>

theorem create_missing_field_400_no_write_witness:
  "status (fst (handle_request sample_unicode ''2024-01-01''
      (json_request POST ''/accounts'' bob_payload) alice_store)) = 400 \<and>
   snd (handle_request sample_unicode ''2024-01-01''
      (json_request POST ''/accounts'' bob_payload) alice_store) = alice_store \<and>
   length (Account_all (snd (handle_request sample_unicode ''2024-01-01''
      (json_request POST ''/accounts'' bob_payload) alice_store))) =
     length (Account_all alice_store)"
proof -
  have m: "missing_required_field [(''name'', JStr ''Bob'')]" by code_simp
  show ?thesis
    using create_missing_field_400_no_write
      [where req = "json_request POST ''/accounts'' bob_payload"
        and kvs = "[(''name'', JStr ''Bob'')]" and ucd = sample_unicode
        and today = "''2024-01-01''" and st = alice_store] m
    by (simp add: json_request_def bob_payload_def)
qed

subsection \<open>Deletion of an account (DELETE)\<close>

text \<open>
  Claim C5. For every identifier, a DELETE request to \<^verbatim>\<open>/accounts/{id}\<close>
  returns 204 with an empty body, also when no account with that id exists, and delete is
  idempotent: after the request no account has the identifier, a second request gives the
  same response and the same store as the first, and on an absent identifier the store is
  unchanged.
\<close>

theorem delete_account_204_idempotent:
  assumes "ds \<noteq> []" and "list_all (is_digit ucd) ds"
    and "req_method req = DELETE" and "req_path req = ascii ''/accounts/'' @ ds"
  shows "fst (handle_request ucd today req st) = make_response (Text []) 204 [] \<and>
         Account_find (snd (handle_request ucd today req st)) (int (digits_to_nat ucd ds)) = None \<and>
         handle_request ucd today req (snd (handle_request ucd today req st)) =
           handle_request ucd today req st \<and>
         (Account_find st (int (digits_to_nat ucd ds)) = None \<longrightarrow>
            snd (handle_request ucd today req st) = st)"
proof (cases "Account_find st (int (digits_to_nat ucd ds))")
  case None
  then show ?thesis
    by (simp add: handle_delete_account [OF assms])
next
  case (Some a)
  then show ?thesis
    by (simp add: handle_delete_account [OF assms] Account_find_after_delete)
qed

text \<open>
  Claim C5 at the requests of the test suite: deleting the existing account 1, and
  deleting the absent account 999.
\<close>

theorem delete_account_204_idempotent_witness:
  "fst (handle_request sample_unicode ''2024-01-01'' (bare_request DELETE ''/accounts/1'') alice_store) =
     make_response (Text []) 204 [] \<and>
   snd (handle_request sample_unicode ''2024-01-01'' (bare_request DELETE ''/accounts/1'') alice_store) =
     \<lparr>accounts = [], next_id = 2\<rparr> \<and>
   handle_request sample_unicode ''2024-01-01'' (bare_request DELETE ''/accounts/1'')
     (snd (handle_request sample_unicode ''2024-01-01'' (bare_request DELETE ''/accounts/1'') alice_store)) =
     handle_request sample_unicode ''2024-01-01'' (bare_request DELETE ''/accounts/1'') alice_store \<and>
   fst (handle_request sample_unicode ''2024-01-01'' (bare_request DELETE ''/accounts/999'') alice_store) =
     make_response (Text []) 204 [] \<and>
   snd (handle_request sample_unicode ''2024-01-01'' (bare_request DELETE ''/accounts/999'') alice_store) =
     alice_store"
proof -
  have absent: "Account_find alice_store (int (digits_to_nat sample_unicode (ascii ''999''))) = None"
    by code_simp
  have deleted:
    "snd (handle_request sample_unicode ''2024-01-01'' (bare_request DELETE ''/accounts/1'') alice_store) =
       \<lparr>accounts = [], next_id = 2\<rparr>"
    by code_simp
  show ?thesis
    using
      delete_account_204_idempotent [where ds = "ascii ''1''" and ucd = sample_unicode
        and today = "''2024-01-01''" and req = "bare_request DELETE ''/accounts/1''"
        and st = alice_store]
      delete_account_204_idempotent [where ds = "ascii ''999''" and ucd = sample_unicode
        and today = "''2024-01-01''" and req = "bare_request DELETE ''/accounts/999''"
        and st = alice_store]
      absent deleted
    by (simp add: bare_request_def ascii_def is_digit_def decimal_def)
qed

subsection \<open>Reading one account (GET)\<close>

text \<open>
  Claim C6. For every identifier, a GET request to \<^verbatim>\<open>/accounts/{id}\<close> returns 200
  with the serialized Account when \<open>find\<close> returns an account, and 404 when \<open>find\<close>
  returns the absence value \<open>None\<close>; in both cases the store is the same afterwards.
  The account returned is one of the store with that identifier, and it is absent only when
  the store has none with that identifier. Absence is a value of \<open>Account_find\<close>,
  which raises nothing.
\<close>

theorem read_account_200_or_404:
  assumes "ds \<noteq> []" and "list_all (is_digit ucd) ds"
    and "req_method req = GET" and "req_path req = ascii ''/accounts/'' @ ds"
  shows "(case Account_find st (int (digits_to_nat ucd ds)) of
            Some a \<Rightarrow>
              handle_request ucd today req st =
                (make_response (Json (Account_serialize a)) 200 [], st) \<and>
              a \<in> set (accounts st) \<and> acc_id a = Some (int (digits_to_nat ucd ds))
          | None \<Rightarrow>
              status (fst (handle_request ucd today req st)) = 404 \<and>
              snd (handle_request ucd today req st) = st \<and>
              (\<forall>b \<in> set (accounts st). acc_id b \<noteq> Some (int (digits_to_nat ucd ds))))"
proof (cases "Account_find st (int (digits_to_nat ucd ds))")
  case None
  with handle_get_account [OF assms, where today = today and st = st]
    Account_find_None [OF None]
  show ?thesis by simp
next
  case (Some a)
  with handle_get_account [OF assms, where today = today and st = st]
    Account_find_Some [OF Some]
  show ?thesis by simp
qed

text \<open>
  Claim C6 at the existing account 1, and at the specification's scenario 3: account 0 on
  a store that has none.
\<close>

theorem read_account_200_or_404_witness:
  "handle_request sample_unicode ''2024-01-01'' (bare_request GET ''/accounts/1'') alice_store =
     (make_response (Json (Account_serialize alice)) 200 [], alice_store) \<and>
   status (fst (handle_request sample_unicode ''2024-01-01'' (bare_request GET ''/accounts/0'')
     empty_store)) = 404 \<and>
   snd (handle_request sample_unicode ''2024-01-01'' (bare_request GET ''/accounts/0'') empty_store) =
     empty_store \<and>
   alice \<in> set (accounts alice_store) \<and> acc_id alice = Some 1 \<and>
   accounts empty_store = []"
proof -
  have found:
    "Account_find alice_store (int (digits_to_nat sample_unicode (ascii ''1''))) = Some alice"
    by code_simp
  have absent:
    "Account_find empty_store (int (digits_to_nat sample_unicode (ascii ''0''))) = None"
    by code_simp
  have one: "int (digits_to_nat sample_unicode (ascii ''1'')) = 1"
    by code_simp
  have none: "accounts empty_store = []"
    by (simp add: empty_store_def)
  show ?thesis
    using
      read_account_200_or_404 [where ds = "ascii ''1''" and ucd = sample_unicode
        and today = "''2024-01-01''" and req = "bare_request GET ''/accounts/1''"
        and st = alice_store]
      read_account_200_or_404 [where ds = "ascii ''0''" and ucd = sample_unicode
        and today = "''2024-01-01''" and req = "bare_request GET ''/accounts/0''"
        and st = empty_store]
      found absent one none
    by (simp add: bare_request_def ascii_def is_digit_def decimal_def)
qed

subsection \<open>Listing the accounts (GET)\<close>

text \<open>
  Claim C7. A GET request to \<^verbatim>\<open>/accounts\<close> always returns 200 with the sequence
  of all persisted accounts serialized; on an empty store the body is the empty list; and
  after \<open>N\<close> creations (requests that pass every check of \<open>create_accounts\<close>, each
  answered 201) the body is the earlier list followed by exactly the \<open>N\<close> records that
  the creations returned, each once: they are \<open>N\<close> and pairwise different. Started on
  the empty store, the body is exactly these \<open>N\<close> records.
\<close>

theorem list_accounts_all_records:
  assumes "req_method req = GET" and "req_path req = ascii ''/accounts''"
    and "list_all (valid_create_request today) rs"
  shows "handle_request ucd today req st =
           (make_response (Json (JList (map Account_serialize (Account_all st)))) 200 [], st) \<and>
         (Account_all st = [] \<longrightarrow>
            fst (handle_request ucd today req st) = make_response (Json (JList [])) 200 []) \<and>
         list_all (\<lambda>r. status r = 201) (fst (run_requests ucd today rs st)) \<and>
         handle_request ucd today req (snd (run_requests ucd today rs st)) =
           (make_response
              (Json (JList (map Account_serialize (Account_all st) @
                            map resp_json (fst (run_requests ucd today rs st)))))
              200 [], snd (run_requests ucd today rs st)) \<and>
         (Account_all st = [] \<longrightarrow>
            fst (handle_request ucd today req (snd (run_requests ucd today rs st))) =
              make_response (Json (JList (map resp_json (fst (run_requests ucd today rs st)))))
                200 []) \<and>
         length (map resp_json (fst (run_requests ucd today rs st))) = length rs \<and>
         distinct (map resp_json (fst (run_requests ucd today rs st)))"
proof -
  obtain resps st' where run: "run_requests ucd today rs st = (resps, st')"
    by (cases "run_requests ucd today rs st") auto
  from run_valid_creates [OF assms(3) run] obtain created where
    c: "accounts st' = accounts st @ created"
      "length resps = length rs"
      "map resp_json resps = map Account_serialize created"
      "list_all (\<lambda>r. status r = 201) resps"
      "distinct (map acc_id created)"
    by blast
  have d: "distinct (map resp_json resps)"
    unfolding c(3) by (rule distinct_map_transfer [OF c(5)]) (rule serialize_id)
  have l: "length (map resp_json resps) = length rs"
    using c(2) by simp
  have g: "\<And>s. handle_request ucd today req s =
      (make_response (Json (JList (map Account_serialize (Account_all s)))) 200 [], s)"
    by (rule handle_get_accounts [OF assms(1,2)])
  have g': "map Account_serialize (Account_all st') =
      map Account_serialize (Account_all st) @ map resp_json resps"
    by (simp add: Account_all_def c(1) c(3))
  show ?thesis
    using c(4) d l g' by (simp add: g run)
qed

text \<open>
  Claim C7 on the empty store, with two creations: the list is empty before them
  (scenario 6) and holds the two created records, in order, after them.
\<close>

theorem list_accounts_all_records_witness:
  "fst (handle_request sample_unicode ''2024-01-01'' (bare_request GET ''/accounts'') empty_store) =
     make_response (Json (JList [])) 200 [] \<and>
   list_all (\<lambda>r. status r = 201)
     (fst (run_requests sample_unicode ''2024-01-01''
        [json_request POST ''/accounts'' alice_payload,
         json_request POST ''/accounts'' updated_payload] empty_store)) \<and>
   fst (handle_request sample_unicode ''2024-01-01'' (bare_request GET ''/accounts'')
     (snd (run_requests sample_unicode ''2024-01-01''
        [json_request POST ''/accounts'' alice_payload,
         json_request POST ''/accounts'' updated_payload] empty_store))) =
     make_response
       (Json (JList [Account_serialize alice, Account_serialize second_account])) 200 [] \<and>
   Account_serialize alice \<noteq> Account_serialize second_account"
proof -
  have valid: "list_all (valid_create_request ''2024-01-01'')
      [json_request POST ''/accounts'' alice_payload,
       json_request POST ''/accounts'' updated_payload]"
    by code_simp
  have bodies: "map resp_json (fst (run_requests sample_unicode ''2024-01-01''
        [json_request POST ''/accounts'' alice_payload,
         json_request POST ''/accounts'' updated_payload] empty_store)) =
      [Account_serialize alice, Account_serialize second_account]"
    by code_simp
  have empty: "Account_all empty_store = []"
    by (simp add: Account_all_def empty_store_def)
  have get: "req_method (bare_request GET ''/accounts'') = GET"
    "req_path (bare_request GET ''/accounts'') = ascii ''/accounts''"
    by (simp_all add: bare_request_def)
  from list_accounts_all_records [OF get valid, where st = empty_store
      and ucd = sample_unicode]
  show ?thesis
    unfolding bodies empty by simp
qed

subsection \<open>Effects on the store\<close>


subsection \<open>Routing of account URLs\<close>

text \<open>
  Claim C10. For every request on \<^verbatim>\<open>/accounts/{x}\<close> where the path segment
  \<open>x\<close> (a text without slash) is not a decimal integer (not a non-empty run of decimal
  digits, ASCII or other), whatever the verb and so for GET, PUT and DELETE, the routing
  layer finds no rule: the request is answered 404, no view function is called and the
  store is unchanged. The three rules of \<open>url_map\<close> for these verbs declare the integer
  converter for \<open>account_id\<close>.
\<close>

theorem non_integer_id_rejected_by_routing:
  assumes "47 \<notin> set x"
    and "\<not> (x \<noteq> [] \<and> list_all (is_digit ucd) x)"
    and "req_path req = ascii ''/accounts/'' @ x"
  shows "url_match ucd (req_method req) (req_path req) =
           Inl (HTTPException 404 ''Not Found'') \<and>
         dispatch_request ucd today req st = (Inl (HTTPException 404 ''Not Found''), st) \<and>
         handle_request ucd today req st = (error_response 404 ''Not Found'', st)"
  using assms(3) url_match_not_integer [OF assms(1,2), of "req_method req"]
  by (simp add: handle_request_def dispatch_request_def)

text \<open>
  Claim C10 at the segment \<^verbatim>\<open>abc\<close>, for each of the three verbs, and at a
  segment that mixes a digit with a letter.
\<close>

theorem non_integer_id_rejected_by_routing_witness:
  "handle_request sample_unicode ''2024-01-01'' (bare_request GET ''/accounts/abc'')
     alice_store = (error_response 404 ''Not Found'', alice_store) \<and>
   handle_request sample_unicode ''2024-01-01''
     (json_request PUT ''/accounts/abc'' updated_payload) alice_store =
     (error_response 404 ''Not Found'', alice_store) \<and>
   handle_request sample_unicode ''2024-01-01'' (bare_request DELETE ''/accounts/abc'')
     alice_store = (error_response 404 ''Not Found'', alice_store) \<and>
   handle_request sample_unicode ''2024-01-01'' (bare_request DELETE ''/accounts/1a'')
     alice_store = (error_response 404 ''Not Found'', alice_store) \<and>
   url_match sample_unicode DELETE (ascii ''/accounts/abc'') =
     Inl (HTTPException 404 ''Not Found'')"
  using
    non_integer_id_rejected_by_routing [where x = "ascii ''abc''" and ucd = sample_unicode
      and today = "''2024-01-01''" and req = "bare_request GET ''/accounts/abc''"
      and st = alice_store]
    non_integer_id_rejected_by_routing [where x = "ascii ''abc''" and ucd = sample_unicode
      and today = "''2024-01-01''"
      and req = "json_request PUT ''/accounts/abc'' updated_payload" and st = alice_store]
    non_integer_id_rejected_by_routing [where x = "ascii ''abc''" and ucd = sample_unicode
      and today = "''2024-01-01''" and req = "bare_request DELETE ''/accounts/abc''"
      and st = alice_store]
    non_integer_id_rejected_by_routing [where x = "ascii ''1a''" and ucd = sample_unicode
      and today = "''2024-01-01''" and req = "bare_request DELETE ''/accounts/1a''"
      and st = alice_store]
  by (simp add: bare_request_def json_request_def ascii_def is_digit_def decimal_def)


end
